theory Spec2Isabelle
  imports Complex_Main "HOL-Library.Word"
begin

unbundle bit_operations_syntax

section \<open>Results, errors and machine integers\<close>

text \<open>
  Every Go function of the codec returns a value and an \<open>error\<close>. The sentinel errors of
  packages \<open>wire\<close> and \<open>v8serialize\<close> are the constructors of \<open>error\<close>; an error wrapped
  with \<open>fmt.Errorf("%w: ...", ErrX, ...)\<close> is of kind \<open>ErrX\<close>. A run-time panic (a slice
  expression out of bounds) is the result \<open>Panic\<close>. \<open>OutOfFuel\<close> is the result of a
  recursive reader whose recursion budget is used up; it stands for "has not returned yet".
\<close>

type_synonym byte = "8 word"

text \<open>A Go string that is valid UTF-8, as the sequence of its runes (Unicode scalar values).\<close>

type_synonym gostring = "nat list"

datatype error =
    ErrUnexpectedEOF
  | ErrVarintOverflow
  | ErrNegativeLength
  | ErrInvalidHeader
  | ErrUnsupportedVersion
  | ErrUnexpectedTag
  | ErrMalformedData
  | ErrMaxDepthExceeded
  | ErrMaxSizeExceeded
  | ErrInvalidReference
  | ErrUnsupportedType

datatype 'a result = Ok 'a | Err error | Panic | OutOfFuel

definition andThen :: "'a result \<Rightarrow> ('a \<Rightarrow> 'b result) \<Rightarrow> 'b result" where
  "andThen r f = (case r of Ok x \<Rightarrow> f x | Err e \<Rightarrow> Err e | Panic \<Rightarrow> Panic | OutOfFuel \<Rightarrow> OutOfFuel)"

definition wrapErr :: "error \<Rightarrow> 'a result \<Rightarrow> 'a result" where
  "wrapErr k r = (case r of Err e \<Rightarrow> Err k | _ \<Rightarrow> r)"

text \<open>Go's \<open>int\<close> and \<open>int64\<close> on a 64-bit platform: arithmetic wraps around silently.\<close>

definition wrap64 :: "int \<Rightarrow> int" where
  "wrap64 x = (x + 2 ^ 63) mod 2 ^ 64 - 2 ^ 63"

definition minInt64 :: int where
  "minInt64 = - (2 ^ 63)"

text \<open>Go's integer division truncates towards zero.\<close>

definition tdiv :: "int \<Rightarrow> int \<Rightarrow> int" where
  "tdiv a b = sgn a * sgn b * (\<bar>a\<bar> div \<bar>b\<bar>)"

section \<open>Package wire: the reader\<close>

record Reader =
  data :: "byte list"
  pos :: int

definition NewReader :: "byte list \<Rightarrow> Reader" where
  "NewReader bs = \<lparr>data = bs, pos = 0\<rparr>"

definition Len :: "Reader \<Rightarrow> int" where
  "Len r = int (length (data r))"

definition Peek :: "Reader \<Rightarrow> byte result" where
  "Peek r = (if pos r \<ge> Len r then Err ErrUnexpectedEOF else Ok (data r ! nat (pos r)))"

definition ReadByte :: "Reader \<Rightarrow> (byte \<times> Reader) result" where
  "ReadByte r =
     (if pos r \<ge> Len r then Err ErrUnexpectedEOF
      else Ok (data r ! nat (pos r), r\<lparr>pos := pos r + 1\<rparr>))"

text \<open>
  \<open>ReadBytes\<close>: the bound \<open>r.pos+n\<close> is computed in \<open>int\<close> and wraps; the slice expression
  \<open>r.data[r.pos : r.pos+n]\<close> panics unless \<open>0 \<le> low \<le> high\<close> (\<open>high \<le> len\<close> is what the
  preceding test has established).
\<close>

definition ReadBytes :: "Reader \<Rightarrow> int \<Rightarrow> (byte list \<times> Reader) result" where
  "ReadBytes r n =
     (let hi = wrap64 (pos r + n) in
      if hi > Len r then Err ErrUnexpectedEOF
      else if pos r < 0 \<or> hi < pos r then Panic
      else Ok (take (nat (hi - pos r)) (drop (nat (pos r)) (data r)), r\<lparr>pos := hi\<rparr>))"

text \<open>
  \<open>ReadVarint\<close>: the \<open>for\<close> loop, with the local variables \<open>result\<close> and \<open>shift\<close> as
  arguments. The loop runs again only while \<open>shift < 64\<close>, which bounds it.
\<close>

function ReadVarint_loop :: "Reader \<Rightarrow> 64 word \<Rightarrow> nat \<Rightarrow> (64 word \<times> Reader) result" where
  "ReadVarint_loop r res shift =
     (if pos r \<ge> Len r then Err ErrUnexpectedEOF
      else if shift \<ge> 64 \<or> (shift = 63 \<and> data r ! nat (pos r) > 1) then Err ErrVarintOverflow
      else if data r ! nat (pos r) AND 0x80 = 0
        then Ok (res OR push_bit shift (ucast (data r ! nat (pos r) AND 0x7F)),
                 r\<lparr>pos := pos r + 1\<rparr>)
        else ReadVarint_loop (r\<lparr>pos := pos r + 1\<rparr>)
               (res OR push_bit shift (ucast (data r ! nat (pos r) AND 0x7F))) (shift + 7))"
  by pat_completeness auto
termination
  by (relation "measure (\<lambda>(r, res, shift). 64 - shift)") auto

declare ReadVarint_loop.simps [simp del]

definition ReadVarint :: "Reader \<Rightarrow> (64 word \<times> Reader) result" where
  "ReadVarint r = ReadVarint_loop r 0 0"

definition ReadVarint32 :: "Reader \<Rightarrow> (32 word \<times> Reader) result" where
  "ReadVarint32 r =
     andThen (ReadVarint r) (\<lambda>(v, r').
       if v > 0xFFFFFFFF then Err ErrVarintOverflow else Ok (ucast v, r'))"

definition ZigZagDecode32 :: "32 word \<Rightarrow> 32 word" where
  "ZigZagDecode32 n = drop_bit 1 n XOR (- (n AND 1))"

definition ReadZigZag32 :: "Reader \<Rightarrow> (32 word \<times> Reader) result" where
  "ReadZigZag32 r = andThen (ReadVarint32 r) (\<lambda>(v, r'). Ok (ZigZagDecode32 v, r'))"

text \<open>\<open>binary.LittleEndian.Uint64\<close> and \<open>Uint16\<close> on the first bytes of a slice.\<close>

definition leWord :: "byte list \<Rightarrow> 'a::len word" where
  "leWord bs = foldr (\<lambda>b acc. ucast b OR push_bit 8 acc) bs 0"

definition ReadDouble :: "Reader \<Rightarrow> (64 word \<times> Reader) result" where
  "ReadDouble r =
     (if pos r + 8 > Len r then Err ErrUnexpectedEOF
      else Ok (leWord (take 8 (drop (nat (pos r)) (data r))), r\<lparr>pos := pos r + 8\<rparr>))"

definition AlignTo :: "Reader \<Rightarrow> int \<Rightarrow> Reader" where
  "AlignTo r boundary =
     (if boundary \<le> 0 \<or> (boundary AND (boundary - 1)) \<noteq> 0 then r
      else let remainder = pos r mod boundary in
        if remainder \<noteq> 0 \<and> pos r + (boundary - remainder) \<le> Len r
        then r\<lparr>pos := pos r + (boundary - remainder)\<rparr> else r)"

definition ReadOneByteString :: "Reader \<Rightarrow> int \<Rightarrow> (gostring \<times> Reader) result" where
  "ReadOneByteString r len =
     (if len < 0 then Err ErrNegativeLength
      else if len = 0 then Ok ([], r)
      else andThen (ReadBytes r len) (\<lambda>(bytes, r'). Ok (map unat bytes, r')))"

text \<open>
  \<open>utf16.Decode\<close> of the Go standard library: a high surrogate followed by a low one is
  one rune, any other surrogate is U+FFFD. \<open>string(runes)\<close> replaces every rune that is
  not a Unicode scalar value by U+FFFD.
\<close>

definition DecodeRune :: "16 word \<Rightarrow> 16 word \<Rightarrow> nat" where
  "DecodeRune r1 r2 = (unat r1 - 0xD800) * 1024 + (unat r2 - 0xDC00) + 0x10000"

fun utf16Decode :: "16 word list \<Rightarrow> nat list" where
  "utf16Decode [] = []"
| "utf16Decode (r # rs) =
     (if r < 0xD800 \<or> 0xE000 \<le> r then unat r # utf16Decode rs
      else if r < 0xDC00 \<and> rs \<noteq> [] \<and> 0xDC00 \<le> hd rs \<and> hd rs < 0xE000
        then DecodeRune r (hd rs) # utf16Decode (tl rs)
      else 0xFFFD # utf16Decode rs)"

definition validRune :: "nat \<Rightarrow> bool" where
  "validRune c = (c < 0xD800 \<or> (0xE000 \<le> c \<and> c \<le> 0x10FFFF))"

definition stringOfRunes :: "nat list \<Rightarrow> gostring" where
  "stringOfRunes rs = map (\<lambda>c. if validRune c then c else 0xFFFD) rs"

text \<open>The loop of \<open>ReadTwoByteString\<close> that reads \<open>length\<close> code units.\<close>

fun readCodeUnits :: "Reader \<Rightarrow> nat \<Rightarrow> (16 word list \<times> Reader) result" where
  "readCodeUnits r 0 = Ok ([], r)"
| "readCodeUnits r (Suc n) =
     (if pos r < 0 \<or> pos r + 1 \<ge> Len r then Panic
      else andThen (readCodeUnits (r\<lparr>pos := pos r + 2\<rparr>) n) (\<lambda>(us, r').
        Ok (leWord (take 2 (drop (nat (pos r)) (data r))) # us, r')))"

definition ReadTwoByteString :: "Reader \<Rightarrow> int \<Rightarrow> (gostring \<times> Reader) result" where
  "ReadTwoByteString r len =
     (if len < 0 then Err ErrNegativeLength
      else if len = 0 then Ok ([], r)
      else let r1 = AlignTo r 2; byteLen = wrap64 (len * 2) in
        if wrap64 (pos r1 + byteLen) > Len r1 then Err ErrUnexpectedEOF
        else andThen (readCodeUnits r1 (nat len)) (\<lambda>(u16, r2).
          Ok (stringOfRunes (utf16Decode u16), r2)))"

section \<open>IEEE 754 doubles\<close>

text \<open>
  A \<open>float64\<close> is its bit pattern: the wire carries the bits, and the codec copies them.
  The few arithmetic operations the codec performs (in \<open>readDate\<close>, in the \<open>Date\<close> case of
  the serializer and in the index conversion of \<open>readSparseArray\<close>) are the exact
  operation on the represented rational followed by rounding to nearest, ties to even.
  A conversion to \<open>int64\<close> of a NaN, an infinity or a value out of range is
  implementation-dependent in Go; the model gives the amd64 result, the smallest
  \<open>int64\<close>.
\<close>

definition f64Sign :: "64 word \<Rightarrow> bool" where
  "f64Sign b = bit b 63"

definition f64Exp :: "64 word \<Rightarrow> nat" where
  "f64Exp b = unat (drop_bit 52 b AND 0x7FF)"

definition f64Frac :: "64 word \<Rightarrow> nat" where
  "f64Frac b = unat (b AND 0xFFFFFFFFFFFFF)"

definition f64IsNaN :: "64 word \<Rightarrow> bool" where
  "f64IsNaN b = (f64Exp b = 2047 \<and> f64Frac b \<noteq> 0)"

definition f64IsInf :: "64 word \<Rightarrow> bool" where
  "f64IsInf b = (f64Exp b = 2047 \<and> f64Frac b = 0)"

definition f64IsZero :: "64 word \<Rightarrow> bool" where
  "f64IsZero b = (f64Exp b = 0 \<and> f64Frac b = 0)"

text \<open>The significand and the binary exponent: the value is \<open>\<plusminus> f64Mant b * 2 ^ f64Pow b\<close>.\<close>

definition f64Mant :: "64 word \<Rightarrow> nat" where
  "f64Mant b = (if f64Exp b = 0 then f64Frac b else 2 ^ 52 + f64Frac b)"

definition f64Pow :: "64 word \<Rightarrow> int" where
  "f64Pow b = (if f64Exp b = 0 then - 1074 else int (f64Exp b) - 1075)"

definition pow2 :: "int \<Rightarrow> rat" where
  "pow2 k = (if k \<ge> 0 then 2 ^ nat k else 1 / 2 ^ nat (- k))"

definition f64Val :: "64 word \<Rightarrow> rat" where
  "f64Val b = (if f64Sign b then - 1 else 1) * of_nat (f64Mant b) * pow2 (f64Pow b)"

text \<open>\<open>int64(f)\<close>: truncation towards zero.\<close>

definition f64ToInt64 :: "64 word \<Rightarrow> int" where
  "f64ToInt64 b =
     (if f64Exp b = 2047 then minInt64
      else let mag = (if f64Pow b \<ge> 0 then int (f64Mant b) * 2 ^ nat (f64Pow b)
                      else int (f64Mant b) div 2 ^ nat (- f64Pow b));
               v = (if f64Sign b then - mag else mag)
           in if v < - (2 ^ 63) \<or> v \<ge> 2 ^ 63 then minInt64 else v)"

fun bitLen :: "nat \<Rightarrow> nat" where
  "bitLen n = (if n = 0 then 0 else Suc (bitLen (n div 2)))"

declare bitLen.simps [simp del]

definition floorLog2 :: "rat \<Rightarrow> int" where
  "floorLog2 a =
     (let k = int (bitLen (nat (fst (quotient_of a)))) - int (bitLen (nat (snd (quotient_of a))))
      in if pow2 k \<le> a then k else k - 1)"

definition roundHalfEven :: "rat \<Rightarrow> int" where
  "roundHalfEven x =
     (let fl = \<lfloor>x\<rfloor>; r = x - of_int fl
      in if r < 1 / 2 then fl else if 1 / 2 < r then fl + 1 else if even fl then fl else fl + 1)"

definition f64PosInf :: "64 word" where
  "f64PosInf = 0x7FF0000000000000"

definition f64QNaN :: "64 word" where
  "f64QNaN = 0x7FF8000000000001"

definition f64SignBit :: "bool \<Rightarrow> 64 word" where
  "f64SignBit s = (if s then 0x8000000000000000 else 0)"

text \<open>Rounding of a rational to the nearest double; a zero result takes the sign given.\<close>

definition f64Round :: "bool \<Rightarrow> rat \<Rightarrow> 64 word" where
  "f64Round zeroSign q =
     (if q = 0 then f64SignBit zeroSign
      else let a = \<bar>q\<bar>;
               k = max (floorLog2 a) (- 1022);
               m = roundHalfEven (a / pow2 (k - 52));
               bits = (k + 1022) * 2 ^ 52 + m
           in (if bits \<ge> 0x7FF0000000000000 then f64PosInf else word_of_int bits)
              OR f64SignBit (q < 0))"

definition f64OfInt64 :: "int \<Rightarrow> 64 word" where
  "f64OfInt64 n = f64Round False (of_int n)"

definition f64Mul :: "64 word \<Rightarrow> 64 word \<Rightarrow> 64 word" where
  "f64Mul x y =
     (let s = (f64Sign x \<noteq> f64Sign y) in
      if f64IsNaN x \<or> f64IsNaN y then f64QNaN
      else if f64IsInf x \<or> f64IsInf y
        then (if f64IsZero x \<or> f64IsZero y then f64QNaN else f64PosInf OR f64SignBit s)
      else f64Round s (f64Val x * f64Val y))"

definition f64Div :: "64 word \<Rightarrow> 64 word \<Rightarrow> 64 word" where
  "f64Div x y =
     (let s = (f64Sign x \<noteq> f64Sign y) in
      if f64IsNaN x \<or> f64IsNaN y then f64QNaN
      else if f64IsInf x then (if f64IsInf y then f64QNaN else f64PosInf OR f64SignBit s)
      else if f64IsInf y then f64SignBit s
      else if f64IsZero y then (if f64IsZero x then f64QNaN else f64PosInf OR f64SignBit s)
      else f64Round s (f64Val x / f64Val y))"

definition f64Sub :: "64 word \<Rightarrow> 64 word \<Rightarrow> 64 word" where
  "f64Sub x y =
     (if f64IsNaN x \<or> f64IsNaN y then f64QNaN
      else if f64IsInf x then (if f64IsInf y \<and> f64Sign x = f64Sign y then f64QNaN else x)
      else if f64IsInf y then y XOR f64SignBit True
      else f64Round (f64Sign x \<and> \<not> f64Sign y) (f64Val x - f64Val y))"

section \<open>time.Time\<close>

text \<open>
  A \<open>time.Time\<close> as \<open>time.Unix\<close> builds it: seconds since the epoch and nanoseconds
  within the second. Location and monotonic reading are left out.
\<close>

datatype Time = Time int int

definition timeUnix :: "int \<Rightarrow> int \<Rightarrow> Time" where
  "timeUnix sec nsec =
     (if nsec < 0 \<or> nsec \<ge> 1000000000 then
        let n = tdiv nsec 1000000000;
            sec1 = wrap64 (sec + n);
            nsec1 = wrap64 (nsec - wrap64 (n * 1000000000))
        in if nsec1 < 0 then Time (wrap64 (sec1 - 1)) (nsec1 + 1000000000) else Time sec1 nsec1
      else Time sec nsec)"

definition UnixMilli :: "Time \<Rightarrow> int" where
  "UnixMilli t = (case t of Time sec nsec \<Rightarrow> wrap64 (wrap64 (sec * 1000) + tdiv nsec 1000000))"

section \<open>Package v8serialize: values\<close>

datatype Type =
    TypeUndefined | TypeNull | TypeBool | TypeInt32 | TypeUint32 | TypeDouble | TypeBigInt
  | TypeString | TypeDate | TypeRegExp | TypeObject | TypeArray | TypeMap | TypeSet
  | TypeArrayBuffer | TypeTypedArray | TypeDataView | TypeHole | TypeError | TypeBoxedPrimitive

text \<open>
  A \<open>Value\<close> is a type tag and a payload of that type. Three payloads are Go reference
  types, shared by every copy of the \<open>Value\<close>: the \<open>map[string]Value\<close> of an object, the
  \<open>*JSMap\<close> and the \<open>*JSSet\<close>; they are addresses into the heap below. An array holds a
  slice, which is copied by value: the address of its backing array together with its own
  length. Byte slices, \<open>*RegExp\<close>, \<open>*ArrayBufferView\<close>, \<open>*JSError\<close> and \<open>*BoxedPrimitive\<close>
  are written once, before the value is handed out, and are kept by content. The zero
  \<open>Value{}\<close> that accompanies an error is \<open>Undefined\<close>.
\<close>

datatype Value =
    Undefined
  | Null
  | Bool bool
  | Int32 "32 word"
  | Uint32 "32 word"
  | Double "64 word"
  | BigInt int
  | String gostring
  | Date Time
  | Hole
  | RegExp gostring gostring
  | Object nat
  | Array nat nat
  | JSMap nat
  | JSSet nat
  | ArrayBuffer "byte list"
  | ArrayBufferView "byte list" int int gostring
  | JSError gostring gostring gostring "Value option"
  | BoxedPrimitive Type Value

fun typeOf :: "Value \<Rightarrow> Type" where
  "typeOf Undefined = TypeUndefined"
| "typeOf Null = TypeNull"
| "typeOf (Bool b) = TypeBool"
| "typeOf (Int32 n) = TypeInt32"
| "typeOf (Uint32 n) = TypeUint32"
| "typeOf (Double f) = TypeDouble"
| "typeOf (BigInt n) = TypeBigInt"
| "typeOf (String s) = TypeString"
| "typeOf (Date t) = TypeDate"
| "typeOf Hole = TypeHole"
| "typeOf (RegExp p f) = TypeRegExp"
| "typeOf (Object a) = TypeObject"
| "typeOf (Array a n) = TypeArray"
| "typeOf (JSMap a) = TypeMap"
| "typeOf (JSSet a) = TypeSet"
| "typeOf (ArrayBuffer bs) = TypeArrayBuffer"
| "typeOf (ArrayBufferView bs off len ty) = TypeTypedArray"
| "typeOf (JSError n m s c) = TypeError"
| "typeOf (BoxedPrimitive t v) = TypeBoxedPrimitive"

definition IsNumber :: "Value \<Rightarrow> bool" where
  "IsNumber v = (typeOf v = TypeInt32 \<or> typeOf v = TypeUint32 \<or> typeOf v = TypeDouble)"

definition IsString :: "Value \<Rightarrow> bool" where
  "IsString v = (typeOf v = TypeString)"

text \<open>
  The heap: the maps of objects (a Go map has no order), the backing arrays of array
  slices, and the \<open>Entries\<close> and \<open>Values\<close> fields of the \<open>JSMap\<close> and \<open>JSSet\<close> structs.
  An address is an index into the list of its kind.
\<close>

record Heap =
  objs :: "(gostring \<rightharpoonup> Value) list"
  arrs :: "Value list list"
  jsmaps :: "(Value \<times> Value) list list"
  jssets :: "Value list list"

definition emptyHeap :: Heap where
  "emptyHeap = \<lparr>objs = [], arrs = [], jsmaps = [], jssets = []\<rparr>"

text \<open>The elements of an array value: its slice of the backing array.\<close>

definition AsArray :: "Heap \<Rightarrow> Value \<Rightarrow> Value list" where
  "AsArray h v = (case v of Array a n \<Rightarrow> take n (arrs h ! a) | _ \<Rightarrow> [])"


section \<open>Tags\<close>

definition tagVersion :: byte where "tagVersion = 0xFF"
definition tagNull :: byte where "tagNull = 0x30"
definition tagUndefined :: byte where "tagUndefined = 0x5F"
definition tagTrue :: byte where "tagTrue = 0x54"
definition tagFalse :: byte where "tagFalse = 0x46"
definition tagInt32 :: byte where "tagInt32 = 0x49"
definition tagUint32 :: byte where "tagUint32 = 0x55"
definition tagDouble :: byte where "tagDouble = 0x4E"
definition tagBigInt :: byte where "tagBigInt = 0x5A"
definition tagDate :: byte where "tagDate = 0x44"
definition tagOneByteString :: byte where "tagOneByteString = 0x22"
definition tagTwoByteString :: byte where "tagTwoByteString = 0x63"
definition tagBeginJSObject :: byte where "tagBeginJSObject = 0x6F"
definition tagEndJSObject :: byte where "tagEndJSObject = 0x7B"
definition tagBeginDenseArray :: byte where "tagBeginDenseArray = 0x41"
definition tagEndDenseArray :: byte where "tagEndDenseArray = 0x24"
definition tagBeginSparseArray :: byte where "tagBeginSparseArray = 0x61"
definition tagEndSparseArray :: byte where "tagEndSparseArray = 0x40"
definition tagHole :: byte where "tagHole = 0x2D"
definition tagObjectReference :: byte where "tagObjectReference = 0x5E"
definition tagBeginMap :: byte where "tagBeginMap = 0x3B"
definition tagEndMap :: byte where "tagEndMap = 0x3A"
definition tagBeginSet :: byte where "tagBeginSet = 0x27"
definition tagEndSet :: byte where "tagEndSet = 0x2C"
definition tagArrayBuffer :: byte where "tagArrayBuffer = 0x42"
definition tagResizableArrayBuffer :: byte where "tagResizableArrayBuffer = 0x7E"
definition tagArrayBufferTransfer :: byte where "tagArrayBufferTransfer = 0x74"
definition tagSharedArrayBuffer :: byte where "tagSharedArrayBuffer = 0x75"
definition tagTypedArray :: byte where "tagTypedArray = 0x5C"
definition tagRegExp :: byte where "tagRegExp = 0x52"
definition tagNumberObject :: byte where "tagNumberObject = 0x6E"
definition tagBigIntObject :: byte where "tagBigIntObject = 0x7A"
definition tagTrueObject :: byte where "tagTrueObject = 0x79"
definition tagFalseObject :: byte where "tagFalseObject = 0x78"
definition tagStringObject :: byte where "tagStringObject = 0x73"
definition tagError :: byte where "tagError = 0x72"
definition tagPadding :: byte where "tagPadding = 0x00"

definition errorTagMessage :: byte where "errorTagMessage = 0x6D"
definition errorTagStack :: byte where "errorTagStack = 0x73"
definition errorTagCause :: byte where "errorTagCause = 0x63"
definition errorTagEnd :: byte where "errorTagEnd = 0x2E"
definition errorTypeErrorWithMessage :: byte where "errorTypeErrorWithMessage = 0x6D"
definition errorTypeEvalError :: byte where "errorTypeEvalError = 0x45"
definition errorTypeRangeError :: byte where "errorTypeRangeError = 0x52"
definition errorTypeReferenceError :: byte where "errorTypeReferenceError = 0x46"
definition errorTypeSyntaxError :: byte where "errorTypeSyntaxError = 0x53"
definition errorTypeTypeError :: byte where "errorTypeTypeError = 0x54"
definition errorTypeURIError :: byte where "errorTypeURIError = 0x55"

definition MinVersion :: "32 word" where "MinVersion = 13"
definition MaxVersion :: "32 word" where "MaxVersion = 15"

section \<open>Package v8serialize: the deserializer\<close>

text \<open>
  The \<open>Deserializer\<close> struct. Two fields belong to the model rather than to the struct:
  \<open>heap\<close>, the Go heap that the values built so far point into, and \<open>otherG\<close>, the part
  of \<open>fmt.Sprintf("%g", _)\<close> of the Go standard library that is a parameter here (see
  \<open>sprintfG\<close> below).
\<close>

record Deserializer =
  reader :: Reader
  version :: "32 word"
  maxDepth :: int
  maxSize :: int
  maxArrayLen :: int
  maxObjectKeys :: int
  depth :: int
  objects :: "Value list"
  heap :: Heap
  otherG :: "64 word \<Rightarrow> gostring"

definition DefaultMaxArrayLen :: int where
  "DefaultMaxArrayLen = 10000000"

definition DefaultMaxObjectKeys :: int where
  "DefaultMaxObjectKeys = 1000000"

datatype Option = WithMaxDepth int | WithMaxSize int | WithMaxArrayLen int | WithMaxObjectKeys int

fun applyOption :: "Option \<Rightarrow> Deserializer \<Rightarrow> Deserializer" where
  "applyOption (WithMaxDepth n) d = d\<lparr>maxDepth := n\<rparr>"
| "applyOption (WithMaxSize n) d = d\<lparr>maxSize := n\<rparr>"
| "applyOption (WithMaxArrayLen n) d = d\<lparr>maxArrayLen := n\<rparr>"
| "applyOption (WithMaxObjectKeys n) d = d\<lparr>maxObjectKeys := n\<rparr>"

definition NewDeserializer :: "(64 word \<Rightarrow> gostring) \<Rightarrow> byte list \<Rightarrow> Option list \<Rightarrow> Deserializer" where
  "NewDeserializer g bs opts =
     fold applyOption opts
       \<lparr>reader = NewReader bs, version = 0, maxDepth = 1000, maxSize = 0,
        maxArrayLen = DefaultMaxArrayLen, maxObjectKeys = DefaultMaxObjectKeys,
        depth = 0, objects = [], heap = emptyHeap, otherG = g\<rparr>"

text \<open>A call \<open>d.reader.M(...)\<close>: the method works on the reader inside the deserializer.\<close>

definition onReader :: "(Reader \<Rightarrow> ('a \<times> Reader) result) \<Rightarrow> Deserializer \<Rightarrow> ('a \<times> Deserializer) result" where
  "onReader f d = andThen (f (reader d)) (\<lambda>(x, r'). Ok (x, d\<lparr>reader := r'\<rparr>))"

text \<open>\<open>_, _ = d.reader.ReadByte()\<close>: the byte and the error are both dropped.\<close>

definition discardByte :: "Deserializer \<Rightarrow> Deserializer" where
  "discardByte d = (case ReadByte (reader d) of Ok (b, r') \<Rightarrow> d\<lparr>reader := r'\<rparr> | _ \<Rightarrow> d)"

definition register :: "Value \<Rightarrow> Deserializer \<Rightarrow> Deserializer" where
  "register v d = d\<lparr>objects := objects d @ [v]\<rparr>"

definition readHeader :: "Deserializer \<Rightarrow> Deserializer result" where
  "readHeader d =
     andThen (wrapErr ErrInvalidHeader (onReader ReadByte d)) (\<lambda>(tag, d1).
       if tag \<noteq> tagVersion then Err ErrInvalidHeader
       else andThen (wrapErr ErrInvalidHeader (onReader ReadVarint32 d1)) (\<lambda>(ver, d2).
         if ver < MinVersion \<or> ver > MaxVersion then Err ErrUnsupportedVersion
         else Ok (d2\<lparr>version := ver\<rparr>)))"

text \<open>
  The padding loop at the head of \<open>readValue\<close>: peek, stop at the first byte that is not
  padding, otherwise consume it. A failed peek is reported as \<open>ErrMalformedData\<close>.
\<close>

function skipPadding :: "Reader \<Rightarrow> Reader result" where
  "skipPadding r =
     (if pos r \<ge> Len r then Err ErrMalformedData
      else if data r ! nat (pos r) \<noteq> tagPadding then Ok r
      else skipPadding (r\<lparr>pos := pos r + 1\<rparr>))"
  by pat_completeness auto
termination
  by (relation "measure (\<lambda>r. nat (Len r - pos r))") (auto simp: Len_def)

declare skipPadding.simps [simp del]

definition readInt32 :: "Deserializer \<Rightarrow> (Value \<times> Deserializer) result" where
  "readInt32 d = andThen (onReader ReadZigZag32 d) (\<lambda>(n, d1). Ok (Int32 n, d1))"

definition readUint32 :: "Deserializer \<Rightarrow> (Value \<times> Deserializer) result" where
  "readUint32 d = andThen (onReader ReadVarint32 d) (\<lambda>(n, d1). Ok (Uint32 n, d1))"

definition readDouble :: "Deserializer \<Rightarrow> (Value \<times> Deserializer) result" where
  "readDouble d = andThen (onReader ReadDouble d) (\<lambda>(f, d1). Ok (Double f, d1))"

text \<open>The magnitude of a BigInt: its bytes, least significant first.\<close>

definition leNat :: "byte list \<Rightarrow> nat" where
  "leNat bs = foldr (\<lambda>b acc. unat b + 256 * acc) bs 0"

definition readBigInt :: "Deserializer \<Rightarrow> (Value \<times> Deserializer) result" where
  "readBigInt d =
     andThen (onReader ReadVarint d) (\<lambda>(bitfield, d1).
       let negative = (bitfield AND 1 = 1); byteLength = drop_bit 1 bitfield in
       if byteLength = 0 then Ok (BigInt 0, d1)
       else andThen (onReader (\<lambda>r. ReadBytes r (sint byteLength)) d1) (\<lambda>(bytes, d2).
         Ok (BigInt (if negative then - int (leNat bytes) else int (leNat bytes)), d2)))"

definition readOneByteString :: "Deserializer \<Rightarrow> (Value \<times> Deserializer) result" where
  "readOneByteString d =
     andThen (onReader ReadVarint32 d) (\<lambda>(len, d1).
       andThen (onReader (\<lambda>r. ReadOneByteString r (uint len)) d1) (\<lambda>(s, d2).
         Ok (String s, register (String s) d2)))"

definition readTwoByteString :: "Deserializer \<Rightarrow> (Value \<times> Deserializer) result" where
  "readTwoByteString d =
     andThen (onReader ReadVarint32 d) (\<lambda>(byteLength, d1).
       andThen (onReader (\<lambda>r. ReadTwoByteString r (tdiv (uint byteLength) 2)) d1) (\<lambda>(s, d2).
         Ok (String s, register (String s) d2)))"

definition f64_1000 :: "64 word" where
  "f64_1000 = 0x408F400000000000"

definition f64_1e6 :: "64 word" where
  "f64_1e6 = 0x412E848000000000"

definition readDate :: "Deserializer \<Rightarrow> (Value \<times> Deserializer) result" where
  "readDate d =
     andThen (onReader ReadDouble d) (\<lambda>(ms, d1).
       let sec = f64ToInt64 (f64Div ms f64_1000);
           nsec = f64ToInt64 (f64Mul (f64Sub ms (f64Mul (f64OfInt64 sec) f64_1000)) f64_1e6);
           v = Date (timeUnix sec nsec)
       in Ok (v, register v d1))"

definition readObjectReference :: "Deserializer \<Rightarrow> (Value \<times> Deserializer) result" where
  "readObjectReference d =
     andThen (onReader ReadVarint32 d) (\<lambda>(id, d1).
       if uint id \<ge> int (length (objects d1)) then Err ErrInvalidReference
       else Ok (objects d1 ! unat id, d1))"

definition readArrayBuffer :: "Deserializer \<Rightarrow> (Value \<times> Deserializer) result" where
  "readArrayBuffer d =
     andThen (onReader ReadVarint32 d) (\<lambda>(byteLength, d1).
       andThen (onReader (\<lambda>r. ReadBytes r (uint byteLength)) d1) (\<lambda>(bs, d2).
         Ok (ArrayBuffer bs, register (ArrayBuffer bs) d2)))"

text \<open>ASCII text as a Go string, and \<open>fmt.Sprintf("%d", _)\<close>: the decimal digits.\<close>

definition ascii :: "string \<Rightarrow> gostring" where
  "ascii s = map of_char s"

function digitsOf :: "nat \<Rightarrow> gostring" where
  "digitsOf n = (if n < 10 then [48 + n] else digitsOf (n div 10) @ [48 + n mod 10])"
  by pat_completeness auto
termination
  by (relation "measure id") auto

declare digitsOf.simps [simp del]

definition sprintfD :: "int \<Rightarrow> gostring" where
  "sprintfD i = (if i < 0 then 45 # digitsOf (nat (- i)) else digitsOf (nat i))"

text \<open>
  \<open>fmt.Sprintf("%g", f)\<close>, on the bits of \<open>f\<close>. The verb prints the shortest digits that
  identify the double, in the \<open>%e\<close> form when the decimal exponent is below \<open>-4\<close> or at
  least 6, and in the \<open>%f\<close> form otherwise. So for the double of an integer of
  magnitude below \<open>10^6\<close> it prints the decimal digits of the integer, as \<open>%d\<close> does.
  For every other double (one that is not an integer, an integer from \<open>10^6\<close> on, which
  is printed with an exponent, negative zero, an infinity, a NaN) the text is not
  modelled: it is the parameter \<open>other\<close>.
\<close>

definition sprintfG :: "(64 word \<Rightarrow> gostring) \<Rightarrow> 64 word \<Rightarrow> gostring" where
  "sprintfG other f =
     (let n = f64ToInt64 f
      in if \<bar>n\<bar> < 1000000 \<and> f64OfInt64 n = f then sprintfD n else other f)"

text \<open>
  The readers below call \<open>d.readValue()\<close>; they take it as the argument \<open>rv\<close>. A loop
  that runs until an end tag takes a budget of iterations, and is \<open>OutOfFuel\<close> beyond it.
\<close>

type_synonym readfn = "Deserializer \<Rightarrow> (Value \<times> Deserializer) result"

text \<open>The \<open>switch key.Type()\<close> of \<open>readObject\<close> that turns a key into a string.\<close>

definition keyString :: "Deserializer \<Rightarrow> Value \<Rightarrow> gostring result" where
  "keyString d key =
     (case key of
        String s \<Rightarrow> Ok s
      | Int32 n \<Rightarrow> Ok (sprintfD (sint n))
      | Uint32 n \<Rightarrow> Ok (sprintfD (uint n))
      | Double f \<Rightarrow> Ok (sprintfG (otherG d) f)
      | _ \<Rightarrow> Err ErrMalformedData)"

definition setKey :: "nat \<Rightarrow> gostring \<Rightarrow> Value \<Rightarrow> Deserializer \<Rightarrow> Deserializer" where
  "setKey a k v d = d\<lparr>heap := (heap d)\<lparr>objs := (objs (heap d))[a := (objs (heap d) ! a)(k \<mapsto> v)]\<rparr>\<rparr>"

primrec readObject_loop :: "readfn \<Rightarrow> nat \<Rightarrow> nat \<Rightarrow> Deserializer \<Rightarrow> Deserializer result" where
  "readObject_loop rv 0 a d = OutOfFuel"
| "readObject_loop rv (Suc k) a d =
     andThen (Peek (reader d)) (\<lambda>tag.
       if tag = tagEndJSObject
       then andThen (onReader ReadVarint32 (discardByte d)) (\<lambda>(cnt, d1). Ok d1)
       else andThen (rv d) (\<lambda>(key, d1).
         andThen (keyString d1 key) (\<lambda>keyStr.
           andThen (rv d1) (\<lambda>(val, d2).
             readObject_loop rv k a (setKey a keyStr val d2)))))"

definition readObject :: "readfn \<Rightarrow> nat \<Rightarrow> Deserializer \<Rightarrow> (Value \<times> Deserializer) result" where
  "readObject rv fuel d =
     (let a = length (objs (heap d));
          v = Object a;
          objIndex = length (objects d);
          d0 = register v (d\<lparr>heap := (heap d)\<lparr>objs := objs (heap d) @ [Map.empty]\<rparr>\<rparr>)
      in andThen (readObject_loop rv fuel a d0) (\<lambda>d1.
           Ok (v, d1\<lparr>objects := (objects d1)[objIndex := v]\<rparr>)))"

definition setElem :: "nat \<Rightarrow> nat \<Rightarrow> Value \<Rightarrow> Deserializer \<Rightarrow> Deserializer" where
  "setElem a i v d = d\<lparr>heap := (heap d)\<lparr>arrs := (arrs (heap d))[a := (arrs (heap d) ! a)[i := v]]\<rparr>\<rparr>"

definition newArray :: "Value list \<Rightarrow> Deserializer \<Rightarrow> Deserializer" where
  "newArray cells d = d\<lparr>heap := (heap d)\<lparr>arrs := arrs (heap d) @ [cells]\<rparr>\<rparr>"

text \<open>
  The element loop of \<open>readDenseArray\<close>: \<open>arr = append(arr, elem)\<close> writes the element
  behind the current length \<open>i\<close> of the local slice \<open>arr\<close>, inside the capacity allocated by
  \<open>make([]Value, 0, length)\<close>.
\<close>

primrec readDenseArray_elems :: "readfn \<Rightarrow> nat \<Rightarrow> nat \<Rightarrow> nat \<Rightarrow> Deserializer \<Rightarrow> Deserializer result" where
  "readDenseArray_elems rv a i 0 d = Ok d"
| "readDenseArray_elems rv a i (Suc c) d =
     andThen (rv d) (\<lambda>(elem, d1). readDenseArray_elems rv a (Suc i) c (setElem a i elem d1))"

primrec readDenseArray_props :: "readfn \<Rightarrow> nat \<Rightarrow> Deserializer \<Rightarrow> Deserializer result" where
  "readDenseArray_props rv 0 d = OutOfFuel"
| "readDenseArray_props rv (Suc k) d =
     andThen (Peek (reader d)) (\<lambda>tag.
       if tag = tagEndDenseArray
       then andThen (onReader ReadVarint32 (discardByte d)) (\<lambda>(props, d1).
              andThen (onReader ReadVarint32 d1) (\<lambda>(len, d2). Ok d2))
       else andThen (rv d) (\<lambda>(key, d1).
              andThen (rv d1) (\<lambda>(val, d2). readDenseArray_props rv k d2)))"

definition readDenseArray :: "readfn \<Rightarrow> nat \<Rightarrow> Deserializer \<Rightarrow> (Value \<times> Deserializer) result" where
  "readDenseArray rv fuel d =
     andThen (onReader ReadVarint32 d) (\<lambda>(len, d1).
       if uint len > maxArrayLen d1 then Err ErrMalformedData
       else let a = length (arrs (heap d1));
                arrIndex = length (objects d1);
                d2 = register (Array a 0) (newArray (replicate (unat len) Undefined) d1)
            in andThen (readDenseArray_elems rv a 0 (unat len) d2) (\<lambda>d3.
                 andThen (readDenseArray_props rv fuel d3) (\<lambda>d4.
                   Ok (Array a (unat len),
                       d4\<lparr>objects := (objects d4)[arrIndex := Array a (unat len)]\<rparr>))))"

text \<open>\<open>Value.AsNumber\<close>: the number as a \<open>float64\<close>.\<close>

definition AsNumber :: "Value \<Rightarrow> 64 word" where
  "AsNumber v =
     (case v of Int32 n \<Rightarrow> f64OfInt64 (sint n) | Uint32 n \<Rightarrow> f64OfInt64 (uint n)
      | Double f \<Rightarrow> f | _ \<Rightarrow> 0)"

text \<open>The body of the pair loop of \<open>readSparseArray\<close> after key and value are read.\<close>

definition storeSparse :: "nat \<Rightarrow> nat \<Rightarrow> Value \<Rightarrow> Value \<Rightarrow> Deserializer \<Rightarrow> Deserializer" where
  "storeSparse a len key val d =
     (if IsNumber key
      then let idx = f64ToInt64 (AsNumber key) in
        if idx \<ge> 0 \<and> idx < int len then setElem a (nat idx) val d else d
      else d)"

primrec readSparseArray_loop :: "readfn \<Rightarrow> nat \<Rightarrow> nat \<Rightarrow> nat \<Rightarrow> Deserializer \<Rightarrow> Deserializer result" where
  "readSparseArray_loop rv 0 a len d = OutOfFuel"
| "readSparseArray_loop rv (Suc k) a len d =
     andThen (Peek (reader d)) (\<lambda>tag.
       if tag = tagEndSparseArray
       then andThen (onReader ReadVarint32 (discardByte d)) (\<lambda>(props, d1).
              andThen (onReader ReadVarint32 d1) (\<lambda>(n, d2). Ok d2))
       else andThen (rv d) (\<lambda>(key, d1).
              andThen (rv d1) (\<lambda>(val, d2).
                readSparseArray_loop rv k a len (storeSparse a len key val d2))))"

definition readSparseArray :: "readfn \<Rightarrow> nat \<Rightarrow> Deserializer \<Rightarrow> (Value \<times> Deserializer) result" where
  "readSparseArray rv fuel d =
     andThen (onReader ReadVarint32 d) (\<lambda>(len, d1).
       if uint len > maxArrayLen d1 then Err ErrMalformedData
       else let a = length (arrs (heap d1));
                v = Array a (unat len);
                arrIndex = length (objects d1);
                d2 = register v (newArray (replicate (unat len) Hole) d1)
            in andThen (readSparseArray_loop rv fuel a (unat len) d2) (\<lambda>d3.
                 Ok (v, d3\<lparr>objects := (objects d3)[arrIndex := v]\<rparr>)))"

primrec readMap_loop :: "readfn \<Rightarrow> nat \<Rightarrow> (Value \<times> Value) list \<Rightarrow> Deserializer \<Rightarrow> ((Value \<times> Value) list \<times> Deserializer) result" where
  "readMap_loop rv 0 entries d = OutOfFuel"
| "readMap_loop rv (Suc k) entries d =
     andThen (Peek (reader d)) (\<lambda>tag.
       if tag = tagEndMap
       then andThen (onReader ReadVarint32 (discardByte d)) (\<lambda>(cnt, d1). Ok (entries, d1))
       else andThen (rv d) (\<lambda>(key, d1).
              andThen (rv d1) (\<lambda>(val, d2). readMap_loop rv k (entries @ [(key, val)]) d2)))"

definition readMap :: "readfn \<Rightarrow> nat \<Rightarrow> Deserializer \<Rightarrow> (Value \<times> Deserializer) result" where
  "readMap rv fuel d =
     (let a = length (jsmaps (heap d));
          v = JSMap a;
          mapIndex = length (objects d);
          d0 = register v (d\<lparr>heap := (heap d)\<lparr>jsmaps := jsmaps (heap d) @ [[]]\<rparr>\<rparr>)
      in andThen (readMap_loop rv fuel [] d0) (\<lambda>(entries, d1).
           Ok (v, d1\<lparr>heap := (heap d1)\<lparr>jsmaps := (jsmaps (heap d1))[a := entries]\<rparr>,
                     objects := (objects d1)[mapIndex := v]\<rparr>)))"

primrec readSet_loop :: "readfn \<Rightarrow> nat \<Rightarrow> Value list \<Rightarrow> Deserializer \<Rightarrow> (Value list \<times> Deserializer) result" where
  "readSet_loop rv 0 vals d = OutOfFuel"
| "readSet_loop rv (Suc k) vals d =
     andThen (Peek (reader d)) (\<lambda>tag.
       if tag = tagEndSet
       then andThen (onReader ReadVarint32 (discardByte d)) (\<lambda>(cnt, d1). Ok (vals, d1))
       else andThen (rv d) (\<lambda>(val, d1). readSet_loop rv k (vals @ [val]) d1))"

definition readSet :: "readfn \<Rightarrow> nat \<Rightarrow> Deserializer \<Rightarrow> (Value \<times> Deserializer) result" where
  "readSet rv fuel d =
     (let a = length (jssets (heap d));
          v = JSSet a;
          setIndex = length (objects d);
          d0 = register v (d\<lparr>heap := (heap d)\<lparr>jssets := jssets (heap d) @ [[]]\<rparr>\<rparr>)
      in andThen (readSet_loop rv fuel [] d0) (\<lambda>(vals, d1).
           Ok (v, d1\<lparr>heap := (heap d1)\<lparr>jssets := (jssets (heap d1))[a := vals]\<rparr>,
                     objects := (objects d1)[setIndex := v]\<rparr>)))"

definition regexpFlags :: "32 word \<Rightarrow> gostring" where
  "regexpFlags flagBits =
     (if flagBits AND 1 \<noteq> 0 then ascii ''g'' else []) @
     (if flagBits AND 2 \<noteq> 0 then ascii ''i'' else []) @
     (if flagBits AND 4 \<noteq> 0 then ascii ''m'' else []) @
     (if flagBits AND 8 \<noteq> 0 then ascii ''s'' else []) @
     (if flagBits AND 16 \<noteq> 0 then ascii ''u'' else []) @
     (if flagBits AND 32 \<noteq> 0 then ascii ''y'' else [])"

definition AsString :: "Value \<Rightarrow> gostring" where
  "AsString v = (case v of String s \<Rightarrow> s | _ \<Rightarrow> [])"

definition readRegExp :: "readfn \<Rightarrow> Deserializer \<Rightarrow> (Value \<times> Deserializer) result" where
  "readRegExp rv d =
     andThen (rv d) (\<lambda>(pattern, d1).
       if \<not> IsString pattern then Err ErrMalformedData
       else andThen (onReader ReadVarint32 d1) (\<lambda>(flagBits, d2).
         let v = RegExp (AsString pattern) (regexpFlags flagBits) in Ok (v, register v d2)))"

definition typedArrayName :: "byte \<Rightarrow> gostring" where
  "typedArrayName arrayType =
     (if arrayType = 0 then ascii ''Int8Array''
      else if arrayType = 1 then ascii ''Uint8Array''
      else if arrayType = 2 then ascii ''Uint8ClampedArray''
      else if arrayType = 3 then ascii ''Int16Array''
      else if arrayType = 4 then ascii ''Uint16Array''
      else if arrayType = 5 then ascii ''Int32Array''
      else if arrayType = 6 then ascii ''Uint32Array''
      else if arrayType = 7 then ascii ''Float32Array''
      else if arrayType = 8 then ascii ''Float64Array''
      else if arrayType = 9 then ascii ''DataView''
      else if arrayType = 10 then ascii ''Float16Array''
      else if arrayType = 11 then ascii ''BigInt64Array''
      else if arrayType = 12 then ascii ''BigUint64Array''
      else ascii ''TypedArray('' @ sprintfD (uint arrayType) @ ascii '')'')"

definition readTypedArray :: "Deserializer \<Rightarrow> (Value \<times> Deserializer) result" where
  "readTypedArray d =
     andThen (onReader ReadByte d) (\<lambda>(arrayType, d1).
       andThen (onReader ReadVarint32 d1) (\<lambda>(byteLength, d2).
         andThen (onReader (\<lambda>r. ReadBytes r (uint byteLength)) d2) (\<lambda>(buf, d3).
           let v = ArrayBufferView buf 0 (int (length buf)) (typedArrayName arrayType)
           in Ok (v, register v d3))))"

definition readNumberObject :: "Deserializer \<Rightarrow> (Value \<times> Deserializer) result" where
  "readNumberObject d =
     andThen (onReader ReadDouble d) (\<lambda>(f, d1).
       let v = BoxedPrimitive TypeDouble (Double f) in Ok (v, register v d1))"

definition readTrueObject :: "Deserializer \<Rightarrow> (Value \<times> Deserializer) result" where
  "readTrueObject d = (let v = BoxedPrimitive TypeBool (Bool True) in Ok (v, register v d))"

definition readFalseObject :: "Deserializer \<Rightarrow> (Value \<times> Deserializer) result" where
  "readFalseObject d = (let v = BoxedPrimitive TypeBool (Bool False) in Ok (v, register v d))"

definition readStringObject :: "readfn \<Rightarrow> Deserializer \<Rightarrow> (Value \<times> Deserializer) result" where
  "readStringObject rv d =
     andThen (rv d) (\<lambda>(inner, d1).
       if typeOf inner \<noteq> TypeString then Err ErrMalformedData
       else let v = BoxedPrimitive TypeString inner in Ok (v, register v d1))"

definition readBigIntObject :: "readfn \<Rightarrow> Deserializer \<Rightarrow> (Value \<times> Deserializer) result" where
  "readBigIntObject rv d =
     andThen (rv d) (\<lambda>(inner, d1).
       if typeOf inner \<noteq> TypeBigInt then Err ErrMalformedData
       else let v = BoxedPrimitive TypeBigInt inner in Ok (v, register v d1))"

text \<open>The \<open>JSError\<close> under construction in \<open>readError\<close>: name, message, stack, cause.\<close>

type_synonym jserr = "gostring \<times> gostring \<times> gostring \<times> Value option"

definition errorName :: "byte \<Rightarrow> gostring" where
  "errorName errType =
     (if errType = errorTypeEvalError then ascii ''EvalError''
      else if errType = errorTypeRangeError then ascii ''RangeError''
      else if errType = errorTypeReferenceError then ascii ''ReferenceError''
      else if errType = errorTypeSyntaxError then ascii ''SyntaxError''
      else if errType = errorTypeTypeError then ascii ''TypeError''
      else if errType = errorTypeURIError then ascii ''URIError''
      else ascii ''Error'')"

definition applySubTag :: "byte \<Rightarrow> Value \<Rightarrow> jserr \<Rightarrow> jserr" where
  "applySubTag subTag val e =
     (case e of (name, msg, stack, cause) \<Rightarrow>
        if subTag = errorTagMessage then (name, if IsString val then AsString val else msg, stack, cause)
        else if subTag = errorTagStack then (name, msg, if IsString val then AsString val else stack, cause)
        else if subTag = errorTagCause then (name, msg, stack, Some val)
        else e)"

primrec readError_loop :: "readfn \<Rightarrow> nat \<Rightarrow> jserr \<Rightarrow> Deserializer \<Rightarrow> (jserr \<times> Deserializer) result" where
  "readError_loop rv 0 e d = OutOfFuel"
| "readError_loop rv (Suc k) e d =
     andThen (onReader ReadByte d) (\<lambda>(subTag, d1).
       if subTag = errorTagEnd then Ok (e, d1)
       else andThen (rv d1) (\<lambda>(val, d2). readError_loop rv k (applySubTag subTag val e) d2))"

definition readError :: "readfn \<Rightarrow> nat \<Rightarrow> Deserializer \<Rightarrow> (Value \<times> Deserializer) result" where
  "readError rv fuel d =
     andThen (onReader ReadByte d) (\<lambda>(errType, d1).
       andThen
         (if errType = errorTypeErrorWithMessage
          then andThen (rv d1) (\<lambda>(val, d2).
                 Ok ((ascii ''Error'', if IsString val then AsString val else [], [], None), d2))
          else Ok ((errorName errType, [], [], None), d1))
         (\<lambda>(e0, d2).
            andThen (readError_loop rv fuel e0 d2) (\<lambda>(e, d3).
              case e of (name, msg, stack, cause) \<Rightarrow>
                let v = JSError name msg stack cause in Ok (v, register v d3))))"

text \<open>The \<open>switch tag\<close> of \<open>readValue\<close>, in the order of the source.\<close>

definition dispatch :: "readfn \<Rightarrow> nat \<Rightarrow> byte \<Rightarrow> Deserializer \<Rightarrow> (Value \<times> Deserializer) result" where
  "dispatch rv fuel tag d =
     (if tag = tagNull then Ok (Null, d)
      else if tag = tagUndefined then Ok (Undefined, d)
      else if tag = tagTrue then Ok (Bool True, d)
      else if tag = tagFalse then Ok (Bool False, d)
      else if tag = tagHole then Ok (Hole, d)
      else if tag = tagInt32 then readInt32 d
      else if tag = tagUint32 then readUint32 d
      else if tag = tagDouble then readDouble d
      else if tag = tagBigInt then readBigInt d
      else if tag = tagOneByteString then readOneByteString d
      else if tag = tagTwoByteString then readTwoByteString d
      else if tag = tagDate then readDate d
      else if tag = tagBeginJSObject then readObject rv fuel d
      else if tag = tagBeginDenseArray then readDenseArray rv fuel d
      else if tag = tagBeginSparseArray then readSparseArray rv fuel d
      else if tag = tagObjectReference then readObjectReference d
      else if tag = tagBeginMap then readMap rv fuel d
      else if tag = tagBeginSet then readSet rv fuel d
      else if tag = tagArrayBuffer then readArrayBuffer d
      else if tag = tagTypedArray then readTypedArray d
      else if tag = tagRegExp then readRegExp rv d
      else if tag = tagNumberObject then readNumberObject d
      else if tag = tagTrueObject then readTrueObject d
      else if tag = tagFalseObject then readFalseObject d
      else if tag = tagStringObject then readStringObject rv d
      else if tag = tagBigIntObject then readBigIntObject rv d
      else if tag = tagError then readError rv fuel d
      else Err ErrUnexpectedTag)"

text \<open>
  \<open>readValue\<close> without its recursion: the depth check, the padding loop, the tag byte and
  the dispatch; \<open>defer func() { d.depth-- }()\<close> runs when the dispatch returns.
\<close>

definition readValue_body :: "readfn \<Rightarrow> nat \<Rightarrow> Deserializer \<Rightarrow> (Value \<times> Deserializer) result" where
  "readValue_body rv fuel d =
     (let d0 = d\<lparr>depth := depth d + 1\<rparr> in
      if depth d0 > maxDepth d0 then Err ErrMaxDepthExceeded
      else andThen (skipPadding (reader d0)) (\<lambda>r1.
        andThen (wrapErr ErrMalformedData (onReader ReadByte (d0\<lparr>reader := r1\<rparr>))) (\<lambda>(tag, d2).
          andThen (dispatch rv fuel tag d2) (\<lambda>(v, d3). Ok (v, d3\<lparr>depth := depth d3 - 1\<rparr>)))))"

text \<open>
  \<open>readValue\<close>: the argument counts the nested calls that are still allowed, and the
  iterations of each loop of the readers called.
\<close>

primrec readValue :: "nat \<Rightarrow> Deserializer \<Rightarrow> (Value \<times> Deserializer) result" where
  "readValue 0 d = OutOfFuel"
| "readValue (Suc n) d = readValue_body (readValue n) n d"

definition DeserializeD :: "nat \<Rightarrow> Deserializer \<Rightarrow> (Value \<times> Deserializer) result" where
  "DeserializeD fuel d =
     (if maxSize d > 0 \<and> Len (reader d) > maxSize d then Err ErrMaxSizeExceeded
      else andThen (readHeader d) (\<lambda>d1. readValue fuel d1))"

text \<open>The package function \<open>Deserialize\<close>: the root value, and the heap it lives in.\<close>

definition Deserialize :: "(64 word \<Rightarrow> gostring) \<Rightarrow> nat \<Rightarrow> byte list \<Rightarrow> Option list \<Rightarrow> (Value \<times> Heap) result" where
  "Deserialize g fuel bs opts =
     andThen (DeserializeD fuel (NewDeserializer g bs opts)) (\<lambda>(v, d). Ok (v, heap d))"

section \<open>Package wire: the writer\<close>

text \<open>The \<open>Writer\<close> is its buffer; every method appends to it.\<close>

definition WriteByte :: "byte list \<Rightarrow> byte \<Rightarrow> byte list" where
  "WriteByte buf b = buf @ [b]"

definition WriteBytes :: "byte list \<Rightarrow> byte list \<Rightarrow> byte list" where
  "WriteBytes buf bs = buf @ bs"

function WriteVarint :: "byte list \<Rightarrow> 64 word \<Rightarrow> byte list" where
  "WriteVarint buf n =
     (if n \<ge> 0x80 then WriteVarint (buf @ [ucast n OR 0x80]) (drop_bit 7 n)
      else buf @ [ucast n])"
  by pat_completeness auto
termination
proof (relation "measure (\<lambda>(buf, n). unat n)")
  show "wf (measure (\<lambda>(buf, n). unat n))" by simp
next
  fix buf :: "byte list" and n :: "64 word"
  assume "128 \<le> n"
  then have "n \<noteq> 0" by auto
  then have "unat n \<noteq> 0" by (simp add: unat_eq_0)
  then have "unat n div 2 ^ 7 < unat n" by simp
  then show "((buf @ [ucast n OR 0x80], drop_bit 7 n), (buf, n)) \<in> measure (\<lambda>(buf, n). unat n)"
    by (simp add: unat_drop_bit_eq drop_bit_eq_div unat_div)
qed

declare WriteVarint.simps [simp del]

definition WriteVarint32 :: "byte list \<Rightarrow> 32 word \<Rightarrow> byte list" where
  "WriteVarint32 buf n = WriteVarint buf (ucast n)"

definition ZigZagEncode32 :: "32 word \<Rightarrow> 32 word" where
  "ZigZagEncode32 n = push_bit 1 n XOR signed_drop_bit 31 n"

definition WriteZigZag32 :: "byte list \<Rightarrow> 32 word \<Rightarrow> byte list" where
  "WriteZigZag32 buf n = WriteVarint32 buf (ZigZagEncode32 n)"

text \<open>\<open>binary.LittleEndian.PutUint64\<close> and \<open>PutUint16\<close>: the bytes, least significant first.\<close>

primrec leBytes :: "nat \<Rightarrow> 'a::len word \<Rightarrow> byte list" where
  "leBytes 0 w = []"
| "leBytes (Suc k) w = ucast w # leBytes k (drop_bit 8 w)"

definition WriteDouble :: "byte list \<Rightarrow> 64 word \<Rightarrow> byte list" where
  "WriteDouble buf f = buf @ leBytes 8 f"

definition WriteOneByteString :: "byte list \<Rightarrow> gostring \<Rightarrow> byte list" where
  "WriteOneByteString buf s = buf @ map (\<lambda>r. of_nat r) s"

definition utf16Units :: "nat \<Rightarrow> byte list" where
  "utf16Units r =
     (if r \<le> 0xFFFF then leBytes 2 (of_nat r :: 16 word)
      else leBytes 2 (of_nat (0xD800 + (r - 0x10000) div 1024) :: 16 word) @
           leBytes 2 (of_nat (0xDC00 + (r - 0x10000) mod 1024) :: 16 word))"

definition WriteTwoByteString :: "byte list \<Rightarrow> gostring \<Rightarrow> byte list" where
  "WriteTwoByteString buf s =
     (if length buf mod 2 \<noteq> 0 then buf @ [0x00] else buf) @ concat (map utf16Units s)"

definition UTF16Length :: "gostring \<Rightarrow> int" where
  "UTF16Length s = (\<Sum>r\<leftarrow>s. if r \<le> 0xFFFF then 1 else 2)"

definition NeedsUTF16 :: "gostring \<Rightarrow> bool" where
  "NeedsUTF16 s = (\<exists>r \<in> set s. r > 255)"

text \<open>\<open>len(str)\<close>: the number of bytes of the UTF-8 encoding of the string.\<close>

definition utf8Len :: "nat \<Rightarrow> int" where
  "utf8Len r = (if r < 0x80 then 1 else if r < 0x800 then 2 else if r < 0x10000 then 3 else 4)"

definition lenBytes :: "gostring \<Rightarrow> int" where
  "lenBytes s = (\<Sum>r\<leftarrow>s. utf8Len r)"

section \<open>Package v8serialize: the serializer\<close>

definition SerializeVersion :: "32 word" where
  "SerializeVersion = 15"

definition writeHeader :: "byte list \<Rightarrow> byte list" where
  "writeHeader buf = WriteVarint32 (WriteByte buf tagVersion) SerializeVersion"

text \<open>\<open>uint32(n)\<close> of an \<open>int\<close>: the low 32 bits.\<close>

definition writeString :: "byte list \<Rightarrow> gostring \<Rightarrow> byte list" where
  "writeString buf str =
     (if NeedsUTF16 str
      then WriteTwoByteString
             (WriteVarint32 (WriteByte buf tagTwoByteString) (word_of_int (UTF16Length str * 2)))
             str
      else WriteOneByteString
             (WriteVarint32 (WriteByte buf tagOneByteString) (word_of_int (lenBytes str)))
             str)"

text \<open>\<open>big.Int.Bytes\<close>, reversed: the magnitude without leading zeros, least significant first.\<close>

function natBytesLE :: "nat \<Rightarrow> byte list" where
  "natBytesLE n = (if n = 0 then [] else of_nat (n mod 256) # natBytesLE (n div 256))"
  by pat_completeness auto
termination
  by (relation "measure id") auto

declare natBytesLE.simps [simp del]

definition writeBigInt :: "byte list \<Rightarrow> int \<Rightarrow> byte list" where
  "writeBigInt buf n =
     (let buf1 = WriteByte buf tagBigInt in
      if n = 0 then WriteVarint buf1 0
      else let bytes = natBytesLE (nat \<bar>n\<bar>);
               bitfield = push_bit 1 (of_nat (length bytes) :: 64 word) OR (if n < 0 then 1 else 0)
           in WriteBytes (WriteVarint buf1 bitfield) bytes)"

definition writeArrayBuffer :: "byte list \<Rightarrow> byte list \<Rightarrow> byte list" where
  "writeArrayBuffer buf bs =
     WriteBytes (WriteVarint32 (WriteByte buf tagArrayBuffer) (of_nat (length bs))) bs"

definition flagBit :: "nat \<Rightarrow> 32 word" where
  "flagBit c =
     (if [c] = ascii ''g'' then 1 else if [c] = ascii ''i'' then 2 else if [c] = ascii ''m'' then 4
      else if [c] = ascii ''s'' then 8 else if [c] = ascii ''u'' then 16
      else if [c] = ascii ''y'' then 32 else 0)"

definition writeRegExp :: "byte list \<Rightarrow> gostring \<Rightarrow> gostring \<Rightarrow> byte list" where
  "writeRegExp buf pattern flags =
     WriteVarint32 (writeString (WriteByte buf tagRegExp) pattern)
       (fold (\<lambda>c acc. acc OR flagBit c) flags 0)"

definition typedArrayID :: "gostring \<Rightarrow> byte option" where
  "typedArrayID ty =
     (if ty = ascii ''Int8Array'' then Some 0
      else if ty = ascii ''Uint8Array'' then Some 1
      else if ty = ascii ''Uint8ClampedArray'' then Some 2
      else if ty = ascii ''Int16Array'' then Some 3
      else if ty = ascii ''Uint16Array'' then Some 4
      else if ty = ascii ''Int32Array'' then Some 5
      else if ty = ascii ''Uint32Array'' then Some 6
      else if ty = ascii ''Float32Array'' then Some 7
      else if ty = ascii ''Float64Array'' then Some 8
      else if ty = ascii ''DataView'' then Some 9
      else if ty = ascii ''Float16Array'' then Some 10
      else if ty = ascii ''BigInt64Array'' then Some 11
      else if ty = ascii ''BigUint64Array'' then Some 12
      else None)"

definition writeTypedArray :: "byte list \<Rightarrow> byte list \<Rightarrow> gostring \<Rightarrow> byte list result" where
  "writeTypedArray buf bs ty =
     (case typedArrayID ty of
        None \<Rightarrow> Err ErrUnsupportedType
      | Some typeID \<Rightarrow>
          Ok (WriteBytes (WriteVarint32 (WriteByte (WriteByte buf tagTypedArray) typeID)
                (of_nat (length bs))) bs))"

text \<open>
  \<open>writeBoxedPrimitive\<close>: the accessors \<open>AsDouble\<close>, \<open>AsBool\<close>, \<open>AsString\<close> and \<open>AsBigInt\<close>
  panic on a value of another type.
\<close>

definition writeBoxedPrimitive :: "byte list \<Rightarrow> Type \<Rightarrow> Value \<Rightarrow> byte list result" where
  "writeBoxedPrimitive buf pt inner =
     (if pt = TypeDouble then
        (case inner of Double f \<Rightarrow> Ok (WriteDouble (WriteByte buf tagNumberObject) f) | _ \<Rightarrow> Panic)
      else if pt = TypeBool then
        (case inner of Bool b \<Rightarrow> Ok (WriteByte buf (if b then tagTrueObject else tagFalseObject))
         | _ \<Rightarrow> Panic)
      else if pt = TypeString then
        (case inner of String s \<Rightarrow> Ok (writeString (WriteByte buf tagStringObject) s) | _ \<Rightarrow> Panic)
      else if pt = TypeBigInt then
        (case inner of BigInt n \<Rightarrow> Ok (writeBigInt (WriteByte buf tagBigIntObject) n) | _ \<Rightarrow> Panic)
      else Err ErrUnsupportedType)"

text \<open>
  The recursive writers call \<open>s.writeValue\<close>; they take it as the argument \<open>wv\<close>. A
  \<open>for ... range\<close> loop over a slice is \<open>forEach\<close>. The order in which \<open>range\<close> yields the
  entries of a Go map is not specified by the language, and is drawn anew at every
  \<open>range\<close>: two loops over the same map need not agree. It is the parameter \<open>iter\<close>, which
  lists the entries of a map, each key once, and which takes the bytes written when the
  loop starts as its first argument: every writer only appends, and \<open>writeObject\<close> writes a
  tag before its loop, so no two loops of a run start with the same bytes, and \<open>iter\<close> can
  give each of them an order of its own.
\<close>

type_synonym writefn = "Value \<Rightarrow> byte list \<Rightarrow> byte list result"

type_synonym maporder = "(gostring \<rightharpoonup> Value) \<Rightarrow> (gostring \<times> Value) list"

type_synonym mapiter = "byte list \<Rightarrow> maporder"


primrec forEach :: "('a \<Rightarrow> byte list \<Rightarrow> byte list result) \<Rightarrow> 'a list \<Rightarrow> byte list \<Rightarrow> byte list result" where
  "forEach f [] buf = Ok buf"
| "forEach f (x # xs) buf = andThen (f x buf) (forEach f xs)"

definition writeObject :: "writefn \<Rightarrow> (gostring \<times> Value) list \<Rightarrow> byte list \<Rightarrow> byte list result" where
  "writeObject wv entries buf =
     andThen (forEach (\<lambda>(key, val) b. wv val (writeString b key)) entries
                (WriteByte buf tagBeginJSObject)) (\<lambda>b.
       Ok (WriteVarint32 (WriteByte b tagEndJSObject) (of_nat (length entries))))"

definition writeArray :: "writefn \<Rightarrow> Value list \<Rightarrow> byte list \<Rightarrow> byte list result" where
  "writeArray wv arr buf =
     andThen (forEach wv arr
                (WriteVarint32 (WriteByte buf tagBeginDenseArray) (of_nat (length arr)))) (\<lambda>b.
       Ok (WriteVarint32 (WriteVarint32 (WriteByte b tagEndDenseArray) 0) (of_nat (length arr))))"

definition writeMap :: "writefn \<Rightarrow> (Value \<times> Value) list \<Rightarrow> byte list \<Rightarrow> byte list result" where
  "writeMap wv entries buf =
     andThen (forEach (\<lambda>(key, val) b. andThen (wv key b) (wv val)) entries
                (WriteByte buf tagBeginMap)) (\<lambda>b.
       Ok (WriteVarint32 (WriteByte b tagEndMap) (of_nat (length entries * 2))))"

definition writeSet :: "writefn \<Rightarrow> Value list \<Rightarrow> byte list \<Rightarrow> byte list result" where
  "writeSet wv vals buf =
     andThen (forEach wv vals (WriteByte buf tagBeginSet)) (\<lambda>b.
       Ok (WriteVarint32 (WriteByte b tagEndSet) (of_nat (length vals))))"

definition errorTypeTag :: "gostring \<Rightarrow> byte option" where
  "errorTypeTag name =
     (if name = ascii ''Error'' then None
      else if name = ascii ''EvalError'' then Some errorTypeEvalError
      else if name = ascii ''RangeError'' then Some errorTypeRangeError
      else if name = ascii ''ReferenceError'' then Some errorTypeReferenceError
      else if name = ascii ''SyntaxError'' then Some errorTypeSyntaxError
      else if name = ascii ''TypeError'' then Some errorTypeTypeError
      else if name = ascii ''URIError'' then Some errorTypeURIError
      else None)"

definition writeError :: "writefn \<Rightarrow> gostring \<Rightarrow> gostring \<Rightarrow> gostring \<Rightarrow> Value option \<Rightarrow> byte list \<Rightarrow> byte list result" where
  "writeError wv name msg stack cause buf =
     (let buf1 = WriteByte buf tagError;
          buf2 = (case errorTypeTag name of
                    None \<Rightarrow> writeString (WriteByte buf1 errorTypeErrorWithMessage) msg
                  | Some t \<Rightarrow> writeString (WriteByte (WriteByte buf1 t) errorTagMessage) msg);
          buf3 = (if stack \<noteq> [] then writeString (WriteByte buf2 errorTagStack) stack else buf2)
      in andThen (case cause of None \<Rightarrow> Ok buf3
                  | Some c \<Rightarrow> wv c (WriteByte buf3 errorTagCause)) (\<lambda>b.
           Ok (WriteByte b errorTagEnd)))"

text \<open>The \<open>switch v.Type()\<close> of \<open>writeValue\<close>.\<close>

definition writeValue_body :: "writefn \<Rightarrow> mapiter \<Rightarrow> Heap \<Rightarrow> Value \<Rightarrow> byte list \<Rightarrow> byte list result" where
  "writeValue_body wv iter h v buf =
     (case v of
        Null \<Rightarrow> Ok (WriteByte buf tagNull)
      | Undefined \<Rightarrow> Ok (WriteByte buf tagUndefined)
      | Bool b \<Rightarrow> Ok (WriteByte buf (if b then tagTrue else tagFalse))
      | Int32 n \<Rightarrow> Ok (WriteZigZag32 (WriteByte buf tagInt32) n)
      | Uint32 n \<Rightarrow> Ok (WriteVarint32 (WriteByte buf tagUint32) n)
      | Double f \<Rightarrow> Ok (WriteDouble (WriteByte buf tagDouble) f)
      | BigInt n \<Rightarrow> Ok (writeBigInt buf n)
      | String s \<Rightarrow> Ok (writeString buf s)
      | Date t \<Rightarrow> Ok (WriteDouble (WriteByte buf tagDate) (f64OfInt64 (UnixMilli t)))
      | Object a \<Rightarrow> writeObject wv (iter buf (objs h ! a)) buf
      | Array a n \<Rightarrow> writeArray wv (take n (arrs h ! a)) buf
      | JSMap a \<Rightarrow> writeMap wv (jsmaps h ! a) buf
      | JSSet a \<Rightarrow> writeSet wv (jssets h ! a) buf
      | ArrayBuffer bs \<Rightarrow> Ok (writeArrayBuffer buf bs)
      | RegExp p f \<Rightarrow> Ok (writeRegExp buf p f)
      | JSError name msg stack cause \<Rightarrow> writeError wv name msg stack cause buf
      | ArrayBufferView bs off len ty \<Rightarrow> writeTypedArray buf bs ty
      | BoxedPrimitive pt inner \<Rightarrow> writeBoxedPrimitive buf pt inner
      | Hole \<Rightarrow> Ok (WriteByte buf tagHole))"

text \<open>
  \<open>writeValue\<close>: the first argument counts the nested calls that are still allowed. The Go
  function has no such bound; a call that is \<open>OutOfFuel\<close> for every budget does not return.
\<close>

primrec writeValue :: "nat \<Rightarrow> mapiter \<Rightarrow> Heap \<Rightarrow> Value \<Rightarrow> byte list \<Rightarrow> byte list result" where
  "writeValue 0 iter h v buf = OutOfFuel"
| "writeValue (Suc n) iter h v buf = writeValue_body (writeValue n iter h) iter h v buf"

definition Serialize :: "nat \<Rightarrow> mapiter \<Rightarrow> Heap \<Rightarrow> Value \<Rightarrow> byte list result" where
  "Serialize fuel iter h v = writeValue fuel iter h v (writeHeader [])"

section \<open>Vocabulary of the statements\<close>

text \<open>
  The little-endian 16-bit code units of a byte sequence, two bytes each; a last single
  byte is left out.
\<close>

fun pairUp :: "byte list \<Rightarrow> 16 word list" where
  "pairUp (a # b # rest) = leWord [a, b] # pairUp rest"
| "pairUp rest = []"




section \<open>Concrete states for the closed theorems\<close>

text \<open>
  A value for the parameter \<open>otherG\<close> on inputs that hold no Double as an object key,
  where it is never applied.
\<close>

definition noDoubleKeys :: "64 word \<Rightarrow> gostring" where
  "noDoubleKeys b = []"






text \<open>
  A deserializer in front of the length 3 of a two-byte string, which leaves the cursor
  at the odd position 1.
\<close>

definition oddPosition :: Deserializer where
  "oddPosition = NewDeserializer noDoubleKeys [0x03, 0x61, 0x00, 0x62] []"


section \<open>Evaluation on concrete inputs\<close>

text \<open>
  Rules that let the simplifier run the codec on a concrete input: a step of \<open>andThen\<close>
  is taken only once its first argument is a result, and a numeral budget is unfolded
  one call at a time.
\<close>

lemma andThen_simps [simp]:
  "andThen (Ok x) f = f x"
  "andThen (Err e) f = Err e"
  "andThen Panic f = Panic"
  "andThen OutOfFuel f = OutOfFuel"
  by (simp_all add: andThen_def)

lemma andThen_weak_cong [cong]: "r = r' \<Longrightarrow> andThen r f = andThen r' f"
  by simp

lemma wrapErr_simps [simp]:
  "wrapErr k (Ok x) = Ok x"
  "wrapErr k (Err e) = Err k"
  "wrapErr k Panic = Panic"
  "wrapErr k OutOfFuel = OutOfFuel"
  by (simp_all add: wrapErr_def)

lemmas tag_defs =
  tagVersion_def tagNull_def tagUndefined_def tagTrue_def tagFalse_def tagInt32_def
  tagUint32_def tagDouble_def tagBigInt_def tagDate_def tagOneByteString_def
  tagTwoByteString_def tagBeginJSObject_def tagEndJSObject_def tagBeginDenseArray_def
  tagEndDenseArray_def tagBeginSparseArray_def tagEndSparseArray_def tagHole_def
  tagObjectReference_def tagBeginMap_def tagEndMap_def tagBeginSet_def tagEndSet_def
  tagArrayBuffer_def tagResizableArrayBuffer_def tagArrayBufferTransfer_def
  tagSharedArrayBuffer_def tagTypedArray_def tagRegExp_def tagNumberObject_def
  tagBigIntObject_def tagTrueObject_def tagFalseObject_def tagStringObject_def tagError_def
  tagPadding_def errorTagMessage_def errorTagStack_def errorTagCause_def errorTagEnd_def
  errorTypeErrorWithMessage_def errorTypeEvalError_def errorTypeRangeError_def
  errorTypeReferenceError_def errorTypeSyntaxError_def errorTypeTypeError_def
  errorTypeURIError_def

lemmas wire_defs =
  wrap64_def NewReader_def Len_def Peek_def ReadByte_def ReadBytes_def ReadVarint_def
  ReadVarint32_def ZigZagDecode32_def ReadZigZag32_def leWord_def ReadDouble_def AlignTo_def
  ReadOneByteString_def ReadTwoByteString_def ReadVarint_loop.simps skipPadding.simps

lemmas dec_defs =
  NewDeserializer_def DefaultMaxArrayLen_def DefaultMaxObjectKeys_def onReader_def
  discardByte_def register_def readHeader_def readInt32_def readUint32_def readDouble_def
  readBigInt_def readOneByteString_def readTwoByteString_def readObjectReference_def
  readArrayBuffer_def keyString_def setKey_def readObject_def setElem_def newArray_def
  readDenseArray_def storeSparse_def readSparseArray_def readMap_def readSet_def
  dispatch_def readValue_body_def DeserializeD_def Deserialize_def emptyHeap_def
  MinVersion_def MaxVersion_def

lemma readValue_numeral:
  "readValue (numeral k) d = readValue_body (readValue (pred_numeral k)) (pred_numeral k) d"
  by (simp add: numeral_eq_Suc)

lemmas loops_numeral =
  readObject_loop.simps(2) [of _ "pred_numeral k", folded numeral_eq_Suc]
  readDenseArray_elems.simps(2) [of _ _ _ "pred_numeral k", folded numeral_eq_Suc]
  readDenseArray_props.simps(2) [of _ "pred_numeral k", folded numeral_eq_Suc]
  readSparseArray_loop.simps(2) [of _ "pred_numeral k", folded numeral_eq_Suc]
  readMap_loop.simps(2) [of _ "pred_numeral k", folded numeral_eq_Suc]
  readSet_loop.simps(2) [of _ "pred_numeral k", folded numeral_eq_Suc]
  readError_loop.simps(2) [of _ "pred_numeral k", folded numeral_eq_Suc]
  for k

lemma replicate_numeral: "replicate (numeral k) x = x # replicate (pred_numeral k) x"
  by (simp add: numeral_eq_Suc)

lemmas eval_defs =
  Let_def wire_defs dec_defs tag_defs readValue_numeral loops_numeral replicate_numeral

lemma writeValue_numeral:
  "writeValue (numeral k) iter h v buf =
     writeValue_body (writeValue (pred_numeral k) iter h) iter h v buf"
  by (simp add: numeral_eq_Suc)

lemmas ser_defs =
  Let_def WriteByte_def WriteBytes_def WriteVarint.simps WriteVarint32_def ZigZagEncode32_def
  WriteZigZag32_def WriteDouble_def WriteOneByteString_def WriteTwoByteString_def
  UTF16Length_def NeedsUTF16_def utf8Len_def lenBytes_def utf16Units_def writeHeader_def
  SerializeVersion_def writeString_def writeValue_body_def writeValue_numeral Serialize_def
  tag_defs

section \<open>Auxiliary lemmas\<close>

subsection \<open>Reading code units\<close>

lemma wrap64_id: "- (2 ^ 63) \<le> x \<Longrightarrow> x < 2 ^ 63 \<Longrightarrow> wrap64 x = x"
  by (simp add: wrap64_def)

lemma take2_drop:
  assumes "Suc p < length xs"
  shows "drop p xs = xs ! p # xs ! Suc p # drop (Suc (Suc p)) xs"
proof -
  have "drop p xs = xs ! p # drop (Suc p) xs"
    using assms by (simp add: Cons_nth_drop_Suc)
  moreover have "drop (Suc p) xs = xs ! Suc p # drop (Suc (Suc p)) xs"
    using assms by (simp add: Cons_nth_drop_Suc)
  ultimately show ?thesis by simp
qed

lemma readCodeUnits_ok:
  "0 \<le> pos r \<Longrightarrow> pos r + 2 * int n \<le> Len r \<Longrightarrow>
   readCodeUnits r n =
     Ok (pairUp (take (2 * n) (drop (nat (pos r)) (data r))), r\<lparr>pos := pos r + 2 * int n\<rparr>)"
proof (induction n arbitrary: r)
  case 0
  show ?case by simp
next
  case (Suc n)
  let ?p = "nat (pos r)"
  let ?r = "r\<lparr>pos := pos r + 2\<rparr>"
  have lt: "Suc ?p < length (data r)"
    using Suc.prems by (simp add: Len_def)
  have d: "drop ?p (data r) = data r ! ?p # data r ! Suc ?p # drop (Suc (Suc ?p)) (data r)"
    by (rule take2_drop [OF lt])
  have ih: "readCodeUnits ?r n =
     Ok (pairUp (take (2 * n) (drop (nat (pos ?r)) (data ?r))), ?r\<lparr>pos := pos ?r + 2 * int n\<rparr>)"
    by (rule Suc.IH) (use Suc.prems in \<open>simp_all add: Len_def\<close>)
  have np: "nat (pos r + 2) = Suc (Suc ?p)"
    using Suc.prems by simp
  show ?case
    using Suc.prems ih d np by (simp add: Len_def)
qed

subsection \<open>Decimal digits\<close>






subsection \<open>Doubles\<close>



























subsection \<open>Map iteration\<close>


section \<open>Claims that the code does not meet\<close>

text \<open>
  C1 (cyclic decode). The claim: a container that holds an \<open>ObjectReference\<close> to itself
  decodes to a value whose referencing position is the container itself, with the
  contents it has when decoding ends. \<open>readDenseArray\<close> registers the slice
  \<open>make([]Value, 0, length)\<close> before it reads the elements, so a reference read meanwhile
  is a copy of the slice header of length 0: for the dense array of one element that
  refers to entry 0, the root is the array of length 1 and its only element is an array
  over the same backing store with no elements.
\<close>

theorem dense_array_self_reference_is_stale:
  "Deserialize g 4 [0xFF, 0x0F, 0x41, 0x01, 0x5E, 0x00, 0x24, 0x00, 0x01] [] =
     Ok (Array 0 1, \<lparr>objs = [], arrs = [[Array 0 0]], jsmaps = [], jssets = []\<rparr>) \<and>
   AsArray \<lparr>objs = [], arrs = [[Array 0 0]], jsmaps = [], jssets = []\<rparr> (Array 0 1) = [Array 0 0] \<and>
   AsArray \<lparr>objs = [], arrs = [[Array 0 0]], jsmaps = [], jssets = []\<rparr> (Array 0 0) = []"
  by (simp add: eval_defs AsArray_def)

text \<open>
  C2 (round trip of scalars). The claim: \<open>Deserialize(Serialize(v))\<close> returns \<open>v\<close> for every
  scalar, strings included. \<open>writeString\<close> writes \<open>len(str)\<close>, the number of UTF-8 bytes, as
  the length of a one-byte string, and then one byte for each rune: the string of the single
  rune U+00E9 is written with length 2 and one byte, and reading it back runs out of input.
\<close>

theorem latin1_string_round_trip_fails:
  "Serialize 1 iter h (String [0xE9]) = Ok [0xFF, 0x0F, 0x22, 0x02, 0xE9] \<and>
   Deserialize g 4 [0xFF, 0x0F, 0x22, 0x02, 0xE9] [] = Err ErrUnexpectedEOF"
  by (simp add: eval_defs ser_defs)

text \<open>
  C3 (no panic). The claim: \<open>Deserialize\<close> returns a value or an error on every input. A
  BigInt whose bitfield is \<open>2^64 - 1\<close> declares \<open>2^63 - 1\<close> magnitude bytes; in \<open>ReadBytes\<close>
  the sum \<open>r.pos+n\<close> wraps to a negative number, the test against the length passes, and
  the slice expression panics. This holds for every recursion budget that lets
  \<open>readValue\<close> run at all.
\<close>

theorem bigint_length_overflow_panics:
  "Deserialize g (Suc n)
     [0xFF, 0x0F, 0x5A, 0xFF, 0xFF, 0xFF, 0xFF, 0xFF, 0xFF, 0xFF, 0xFF, 0xFF, 0x01] [] = Panic"
  by (simp add: eval_defs)

text \<open>
  C4 (bound on object keys). The claim: an object with more keys than \<open>max_object_keys\<close> is
  rejected. \<open>readObject\<close> never reads the field \<open>maxObjectKeys\<close>: with the bound set to 1, the
  object with the two keys a and b decodes.
\<close>

theorem max_object_keys_not_enforced:
  "Deserialize g 4
     [0xFF, 0x0F, 0x6F, 0x22, 0x01, 0x61, 0x49, 0x02, 0x22, 0x01, 0x62, 0x49, 0x04, 0x7B, 0x02]
     [WithMaxObjectKeys 1] =
   Ok (Object 0,
       \<lparr>objs = [[[0x61] \<mapsto> Int32 1, [0x62] \<mapsto> Int32 2]], arrs = [], jsmaps = [], jssets = []\<rparr>)"
  by (simp add: eval_defs)

section \<open>Claims that hold in an amended form\<close>

text \<open>
  C5 (reserved tags), as amended. The codec has no error kind \<open>UnsupportedFeature\<close>, and the
  \<open>switch\<close> of \<open>readValue\<close> has no case for the tags of SharedArrayBuffer, ArrayBufferTransfer
  and ResizableArrayBuffer: wherever a value is expected within the depth limit and the
  first byte that is not padding is one of these tags, \<open>readValue\<close> fails with
  \<open>ErrUnexpectedTag\<close>, as for an unknown tag.
\<close>

theorem reserved_tag_is_unexpected_tag:
  assumes "depth d + 1 \<le> maxDepth d"
    and "skipPadding (reader d) = Ok r"
    and "Peek r = Ok tag"
    and "tag = tagSharedArrayBuffer \<or> tag = tagArrayBufferTransfer \<or> tag = tagResizableArrayBuffer"
  shows "readValue (Suc n) d = Err ErrUnexpectedTag"
proof -
  have rb: "ReadByte r = Ok (tag, r\<lparr>pos := pos r + 1\<rparr>)"
    using assms(3) by (auto simp: Peek_def ReadByte_def split: if_splits)
  have disp: "dispatch rv k tag d' = Err ErrUnexpectedTag" for rv k d'
    using assms(4) by (auto simp: dispatch_def tag_defs)
  show ?thesis
    using assms(1,2) rb disp by (simp add: readValue_body_def Let_def onReader_def)
qed

theorem reserved_tag_is_unexpected_tag_witness:
  "readValue (Suc 0) (NewDeserializer noDoubleKeys [0x00, 0x75] []) = Err ErrUnexpectedTag"
proof -
  let ?d = "NewDeserializer noDoubleKeys [0x00, 0x75] []"
  have 1: "depth ?d + 1 \<le> maxDepth ?d" by (simp add: NewDeserializer_def)
  have 2: "skipPadding (reader ?d) = Ok \<lparr>data = [0x00, 0x75], pos = 1\<rparr>"
    by (simp add: NewDeserializer_def wire_defs tag_defs)
  have 3: "Peek \<lparr>data = [0x00, 0x75], pos = 1\<rparr> = Ok 0x75" by (simp add: wire_defs)
  have 4: "(0x75::byte) = tagSharedArrayBuffer \<or> (0x75::byte) = tagArrayBufferTransfer \<or>
           (0x75::byte) = tagResizableArrayBuffer"
    by (simp add: tag_defs)
  show ?thesis by (rule reserved_tag_is_unexpected_tag [OF 1 2 3 4])
qed

text \<open>
  C5 as stated fails: the payloads that consist of the header and one of the three tags
  are reported as an unexpected tag.
\<close>

theorem reserved_tags_counterexample:
  "Deserialize noDoubleKeys 4 [0xFF, 0x0F, 0x75] [] = Err ErrUnexpectedTag \<and>
   Deserialize noDoubleKeys 4 [0xFF, 0x0F, 0x74] [] = Err ErrUnexpectedTag \<and>
   Deserialize noDoubleKeys 4 [0xFF, 0x0F, 0x7E] [] = Err ErrUnexpectedTag"
  by (simp add: eval_defs)







text \<open>
  C8 (two-byte strings), as amended. \<open>readTwoByteString\<close> has no check for an odd byte
  length \<open>L\<close>: it reads \<open>L div 2\<close> code units. When \<open>L div 2 = 0\<close> the result is the empty
  string and the cursor is not aligned. Otherwise the cursor is aligned to 2 (one byte is
  skipped when the position is odd and a byte is left), the read fails with
  \<open>ErrUnexpectedEOF\<close> when fewer than \<open>2 * (L div 2)\<close> bytes are left, and else these bytes
  are decoded as UTF-16LE code units and the string is registered. The buffer is taken to
  be shorter than \<open>2 ^ 62\<close> bytes.
\<close>

theorem two_byte_string_reads_half_length:
  assumes "ReadVarint32 (reader d) = Ok (L, r1)"
    and "0 \<le> pos r1" and "pos r1 \<le> Len r1" and "Len r1 < 2 ^ 62"
  shows "readTwoByteString d =
    (let n = uint L div 2 in
     if n = 0 then Ok (String [], register (String []) (d\<lparr>reader := r1\<rparr>))
     else let p = (if pos r1 mod 2 = 1 \<and> pos r1 + 1 \<le> Len r1 then pos r1 + 1 else pos r1) in
       if p + 2 * n > Len r1 then Err ErrUnexpectedEOF
       else let s = stringOfRunes (utf16Decode (pairUp (take (2 * nat n) (drop (nat p) (data r1)))))
            in Ok (String s, register (String s) (d\<lparr>reader := r1\<lparr>pos := p + 2 * n\<rparr>\<rparr>)))"
proof -
  define n where "n = uint L div 2"
  define p where "p = (if pos r1 mod 2 = 1 \<and> pos r1 + 1 \<le> Len r1 then pos r1 + 1 else pos r1)"
  have L: "0 \<le> uint L" "uint L < 2 ^ 32"
    using uint_lt2p [of L] by simp_all
  have n0: "0 \<le> n" and n32: "n < 2 ^ 31"
    using L by (simp_all add: n_def)
  have td: "tdiv (uint L) 2 = n"
    using L by (simp add: tdiv_def n_def sgn_if)
  have al: "AlignTo r1 2 = r1\<lparr>pos := p\<rparr>"
    by (auto simp: AlignTo_def p_def Let_def)
  have p: "0 \<le> p" "p \<le> Len r1"
    using assms(2,3) by (auto simp: p_def)
  have w1: "wrap64 (n * 2) = n * 2"
    using n0 n32 by (intro wrap64_id) simp_all
  have w2: "wrap64 (p + n * 2) = p + n * 2"
    using n0 n32 p assms(4) by (intro wrap64_id) simp_all
  have goal: "readTwoByteString d =
    (if n = 0 then Ok (String [], register (String []) (d\<lparr>reader := r1\<rparr>))
     else if p + 2 * n > Len r1 then Err ErrUnexpectedEOF
     else Ok (String (stringOfRunes (utf16Decode (pairUp (take (2 * nat n) (drop (nat p) (data r1)))))),
              register (String (stringOfRunes (utf16Decode (pairUp (take (2 * nat n) (drop (nat p) (data r1)))))))
                (d\<lparr>reader := r1\<lparr>pos := p + 2 * n\<rparr>\<rparr>)))"
  proof (cases "n = 0")
    case True
    then show ?thesis
      using assms(1) td
      by (simp add: readTwoByteString_def onReader_def ReadTwoByteString_def)
  next
    case False
    show ?thesis
    proof (cases "p + 2 * n > Len r1")
      case True
      then show ?thesis
        using assms(1) td False n0 al w1 w2
        by (simp add: readTwoByteString_def onReader_def ReadTwoByteString_def Let_def
            Len_def mult.commute)
    next
      case le: False
      have cu: "readCodeUnits (r1\<lparr>pos := p\<rparr>) (nat n) =
        Ok (pairUp (take (2 * nat n) (drop (nat p) (data r1))), r1\<lparr>pos := p + 2 * n\<rparr>)"
        using readCodeUnits_ok [of "r1\<lparr>pos := p\<rparr>" "nat n"] p le n0 by (simp add: Len_def)
      show ?thesis
        using assms(1) td False n0 al w1 w2 le cu
        by (simp add: readTwoByteString_def onReader_def ReadTwoByteString_def Let_def
            Len_def mult.commute)
    qed
  qed
  show ?thesis
    unfolding goal by (simp add: Let_def n_def p_def)
qed

theorem two_byte_string_reads_half_length_witness:
  "ReadVarint32 (reader oddPosition) = Ok (3, \<lparr>data = [0x03, 0x61, 0x00, 0x62], pos = 1\<rparr>) \<and>
   readTwoByteString oddPosition =
     Ok (String [0x6200],
         register (String [0x6200])
           (oddPosition\<lparr>reader := \<lparr>data = [0x03, 0x61, 0x00, 0x62], pos = 4\<rparr>\<rparr>))"
proof -
  let ?r = "\<lparr>data = [0x03, 0x61, 0x00, 0x62], pos = 1\<rparr>"
  have 1: "ReadVarint32 (reader oddPosition) = Ok (3, ?r)"
    by (simp add: oddPosition_def NewDeserializer_def wire_defs)
  have 2: "0 \<le> pos ?r" by simp
  have 3: "pos ?r \<le> Len ?r" by (simp add: Len_def)
  have 4: "Len ?r < 2 ^ 62" by (simp add: Len_def)
  show ?thesis
    using two_byte_string_reads_half_length [OF 1 2 3 4] 1
    by (simp add: Let_def Len_def leWord_def stringOfRunes_def validRune_def DecodeRune_def)
qed

text \<open>
  C8 as stated fails: a two-byte string of byte length 3, followed by the bytes
  \<open>61 00 62\<close>, decodes to the string \<open>a\<close>.
\<close>

theorem odd_length_two_byte_string_counterexample:
  "Deserialize noDoubleKeys 4 [0xFF, 0x0F, 0x63, 0x03, 0x61, 0x00, 0x62] [] =
     Ok (String [0x61], emptyHeap)"
  by (simp add: eval_defs tdiv_def stringOfRunes_def validRune_def)







end
